theory Spec2Isabelle
  imports Main "HOL-Library.Word" "HOL-Library.Char_ord" "HOL-Library.List_Lexorder"
begin

section \<open>The solsms provider: data model\<close>

text \<open>
  The provider is the single file \<^verbatim>\<open>providers/solsms/solsms.go\<close>. Go's \<^verbatim>\<open>int\<close> is
  taken at its width on 64-bit targets, and \<^verbatim>\<open>time.Duration\<close> is an \<^verbatim>\<open>int64\<close> count of
  nanoseconds; both are 64-bit words whose arithmetic wraps, read as signed numbers
  with \<^const>\<open>sint\<close>. A Go \<^verbatim>\<open>string\<close> is a sequence of bytes, as \<^typ>\<open>string\<close> is.
\<close>

type_synonym go_int = "64 word"
type_synonym Duration = "64 word"

text \<open>
  Every error the provider returns is either built by \<^verbatim>\<open>errors.New\<close> from a text, or
  is handed over unchanged from a library call (\<^verbatim>\<open>json.Unmarshal\<close>, \<^verbatim>\<open>http.NewRequest\<close>,
  \<^verbatim>\<open>http.Client.Do\<close>, \<^verbatim>\<open>ioutil.ReadAll\<close>).
\<close>

datatype error =
    errors_New string
  | json_error string
  | url_error string
  | transport_error string
  | read_error string

text \<open>The constants of the file.\<close>

definition providerID :: string where "providerID = ''solsms''"
definition channelName :: string where "channelName = ''SMS''"
definition addressName :: string where "addressName = ''Mobile number''"
definition maxAddresslen :: go_int where "maxAddresslen = 11"
definition maxOTPlen :: go_int where "maxOTPlen = 6"
definition apiURL :: string where "apiURL = ''https://api.kaleyra.io/v1/''"
definition statusOK :: string where "statusOK = ''OK''"

text \<open>The configuration struct, with the six fields its JSON tags name.\<close>

record cfg =
  RootURL :: string
  APIKey :: string
  SID :: string
  Sender :: string
  Timeout :: go_int
  MaxIdleConns :: go_int

text \<open>
  The two fields of \<^verbatim>\<open>http.Transport\<close> and of \<^verbatim>\<open>http.Client\<close> that \<^verbatim>\<open>New\<close> sets.
\<close>

record Transport =
  MaxIdleConnsPerHost :: go_int
  ResponseHeaderTimeout :: Duration

record Client =
  Timeout :: Duration
  Transport :: Transport

text \<open>
  The adapter. Its two pointers are set by \<^verbatim>\<open>New\<close>, the only constructor of the
  unexported type, and are never nil in an adapter that exists.
\<close>

record sms =
  cfg :: cfg
  h :: Client

section \<open>The address pattern\<close>

text \<open>
  \<^verbatim>\<open>reNum = regexp.MustCompile(`\+?([0-9]){8,15}`)\<close>. The syntax tree has the operators
  this pattern uses: a literal byte, a character range, concatenation, \<^verbatim>\<open>x?\<close>, a capture
  group and the counted repetition \<^verbatim>\<open>x{n,m}\<close>. The classes of the pattern are ASCII, so
  matching byte by byte agrees with matching rune by rune.
\<close>

datatype regexp =
    Lit char
  | CharRange char char
  | Concat regexp regexp
  | Quest regexp
  | Capture regexp
  | Repeat regexp nat nat

text \<open>All ways to cut a string in two.\<close>

definition splits :: "string \<Rightarrow> (string \<times> string) list" where
  "splits s = map (\<lambda>i. (take i s, drop i s)) [0..<Suc (length s)]"

text \<open>\<open>match_times p k s\<close>: the string is \<open>k\<close> pieces in a row, each accepted by \<open>p\<close>.\<close>

primrec match_times :: "(string \<Rightarrow> bool) \<Rightarrow> nat \<Rightarrow> string \<Rightarrow> bool" where
  "match_times p 0 s = (s = [])"
| "match_times p (Suc k) s = list_ex (\<lambda>(u, v). p u \<and> match_times p k v) (splits s)"

text \<open>\<open>matches r s\<close>: the whole of \<open>s\<close> is a match of \<open>r\<close>.\<close>

primrec matches :: "regexp \<Rightarrow> string \<Rightarrow> bool" where
  "matches (Lit c) s = (s = [c])"
| "matches (CharRange lo hi) s = (case s of [c] \<Rightarrow> lo \<le> c \<and> c \<le> hi | _ \<Rightarrow> False)"
| "matches (Concat r1 r2) s = list_ex (\<lambda>(u, v). matches r1 u \<and> matches r2 v) (splits s)"
| "matches (Quest r) s = (s = [] \<or> matches r s)"
| "matches (Capture r) s = matches r s"
| "matches (Repeat r n m) s = list_ex (\<lambda>k. match_times (matches r) k s) [n..<Suc m]"

definition reNum :: regexp where
  "reNum = Concat (Quest (Lit CHR ''+''))
                  (Repeat (Capture (CharRange CHR ''0'' CHR ''9'')) 8 15)"

text \<open>
  \<^verbatim>\<open>(*Regexp).MatchString\<close> reports whether the string contains any match of the
  pattern: some substring, starting and ending anywhere, is a match.
\<close>

definition substrings :: "string \<Rightarrow> string list" where
  "substrings s =
     concat (map (\<lambda>i. map (\<lambda>j. take j (drop i s)) [0..<Suc (length s - i)])
                 [0..<Suc (length s)])"

definition MatchString :: "regexp \<Rightarrow> string \<Rightarrow> bool" where
  "MatchString re s = list_ex (matches re) (substrings s)"

text \<open>The bytes of the class \<^verbatim>\<open>[0-9]\<close>.\<close>

definition digit :: "char \<Rightarrow> bool" where
  "digit c = (CHR ''0'' \<le> c \<and> c \<le> CHR ''9'')"

section \<open>The address validator and the capability accessors\<close>

text \<open>A Go \<^verbatim>\<open>error\<close> result is \<open>None\<close> for nil.\<close>

definition ValidateAddress :: "sms \<Rightarrow> string \<Rightarrow> error option" where
  "ValidateAddress s to =
     (if \<not> MatchString reNum to then Some (errors_New ''invalid mobile number'')
      else None)"

definition ID :: "sms \<Rightarrow> string" where
  "ID s = providerID"

definition ChannelName :: "sms \<Rightarrow> string" where
  "ChannelName s = channelName"

definition AddressName :: "sms \<Rightarrow> string" where
  "AddressName s = addressName"

definition AddressDesc :: "sms \<Rightarrow> string" where
  "AddressDesc s = ''Please enter your mobile number''"

definition MaxAddressLen :: "sms \<Rightarrow> go_int" where
  "MaxAddressLen s = maxAddresslen"

definition MaxOTPLen :: "sms \<Rightarrow> go_int" where
  "MaxOTPLen s = maxOTPlen"

definition MaxBodyLen :: "sms \<Rightarrow> go_int" where
  "MaxBodyLen s = 140"

section \<open>The configuration resolver\<close>

text \<open>
  \<^verbatim>\<open>json.Unmarshal\<close> belongs to Go's library. One of its documented cases is written
  out: the JSON text \<^verbatim>\<open>null\<close>, with any JSON white space around it, is valid and assigns
  nil to a pointer, and leaves any other destination as it was, without any error. For
  every other text the decoder of the destination struct is a parameter of the model:
  it returns either an error or the struct it filled, where a key that is absent or null
  leaves its field at the zero value.
\<close>

definition json_space :: "char \<Rightarrow> bool" where
  "json_space c = (c = CHR '' '' \<or> c = CHR 0x09 \<or> c = CHR 0x0A \<or> c = CHR 0x0D)"

definition json_null :: "string \<Rightarrow> bool" where
  "json_null data =
     (rev (dropWhile json_space (rev (dropWhile json_space data))) = ''null'')"

text \<open>
  \<^verbatim>\<open>var c *cfg; json.Unmarshal(jsonCfg, &c)\<close>: the result is the error, or the value of the
  pointer \<open>c\<close> afterwards, \<open>None\<close> for nil.
\<close>

definition json_Unmarshal_cfg :: "(string \<Rightarrow> error + cfg) \<Rightarrow> string \<Rightarrow> error + cfg option" where
  "json_Unmarshal_cfg decode data =
     (if json_null data then Inr None
      else case decode data of Inl err \<Rightarrow> Inl err | Inr c \<Rightarrow> Inr (Some c))"

text \<open>
  \<^verbatim>\<open>strings.TrimRight(s, cutset)\<close> removes the trailing bytes of \<open>s\<close> that are in the
  cutset (an ASCII cutset here).
\<close>

definition TrimRight :: "string \<Rightarrow> string \<Rightarrow> string" where
  "TrimRight s cutset = rev (dropWhile (\<lambda>c. c \<in> set cutset) (rev s))"

definition Second :: Duration where
  "Second = 1000000000"

text \<open>
  The request as \<^verbatim>\<open>Push\<close> builds it: method, URL, header and body. A header, like a set
  of form values, is a Go map from a key to a list of strings, kept here as an
  association list with one entry for each key.
\<close>

type_synonym Header = "(string \<times> string list) list"
type_synonym Values = "(string \<times> string list) list"

text \<open>
  \<^verbatim>\<open>http.NewRequest\<close> parses the URL string it is given, and the request carries the
  parsed URL, a \<^verbatim>\<open>url.URL\<close> struct, not the string.
\<close>

record Userinfo =
  username :: string
  password :: string
  passwordSet :: bool

record URL =
  Scheme :: string
  Opaque :: string
  User :: "Userinfo option"
  Host :: string
  Path :: string
  RawPath :: string
  OmitHost :: bool
  ForceQuery :: bool
  RawQuery :: string
  Fragment :: string
  RawFragment :: string

record Request =
  Method :: string
  URL :: URL
  Header :: Header
  Body :: string

text \<open>What \<^verbatim>\<open>log.Println\<close> is given: a string, or (in \<^verbatim>\<open>Push\<close>) the request.\<close>

datatype log_event = log_string string | log_request Request

text \<open>A call either returns or panics.\<close>

datatype 'a outcome = Returned 'a | Panicked

text \<open>
  \<^verbatim>\<open>New\<close> returns the lines it logged and its outcome: the error, or the adapter.
  Dereferencing the nil pointer in \<^verbatim>\<open>c.APIKey\<close> is a run-time panic.
\<close>

definition New :: "(string \<Rightarrow> error + cfg) \<Rightarrow> string \<Rightarrow> log_event list \<times> (error + sms) outcome" where
  "New decode jsonCfg =
     (case json_Unmarshal_cfg decode jsonCfg of
        Inl err \<Rightarrow> ([], Returned (Inl err))
      | Inr None \<Rightarrow> ([], Panicked)
      | Inr (Some c) \<Rightarrow>
          if APIKey c = [] \<or> Sender c = [] \<or> SID c = []
          then ([], Returned (Inl (errors_New ''invalid APIKey or Sender or SID'')))
          else
            let c = (if RootURL c = [] then c\<lparr>RootURL := apiURL\<rparr> else c);
                c = c\<lparr>RootURL := TrimRight (RootURL c) ''/'' @ ''/'' @ SID c @ ''/messages''\<rparr>;
                t = (if cfg.Timeout c \<noteq> 0 then cfg.Timeout c else 5);
                client = \<lparr>Client.Timeout = t * Second,
                          Transport = \<lparr>MaxIdleConnsPerHost = 1,
                                        ResponseHeaderTimeout = Second * t\<rparr>\<rparr>
            in ([log_string (RootURL c)], Returned (Inr \<lparr>cfg = c, h = client\<rparr>)))"

section \<open>The dispatcher\<close>

subsection \<open>Form values and their encoding\<close>

text \<open>\<^verbatim>\<open>url.Values.Set\<close> and \<^verbatim>\<open>http.Header\<close>'s assignment: the key gets the one value.\<close>

fun map_set :: "(string \<times> string list) list \<Rightarrow> string \<Rightarrow> string list \<Rightarrow> (string \<times> string list) list" where
  "map_set [] k vs = [(k, vs)]"
| "map_set ((k', vs') # kvs) k vs =
     (if k' = k then (k, vs) # kvs else (k', vs') # map_set kvs k vs)"

definition Values_Set :: "Values \<Rightarrow> string \<Rightarrow> string \<Rightarrow> Values" where
  "Values_Set v key val = map_set v key [val]"

text \<open>
  \<^verbatim>\<open>url.QueryEscape\<close>: letters, digits and \<^verbatim>\<open>- _ . ~\<close> stay, a space becomes \<^verbatim>\<open>+\<close>,
  every other byte becomes \<^verbatim>\<open>%XX\<close> in upper-case hexadecimal.
\<close>

definition alnum :: "char \<Rightarrow> bool" where
  "alnum c = (CHR ''a'' \<le> c \<and> c \<le> CHR ''z'' \<or> CHR ''A'' \<le> c \<and> c \<le> CHR ''Z'' \<or>
              CHR ''0'' \<le> c \<and> c \<le> CHR ''9'')"

definition shouldEscape :: "char \<Rightarrow> bool" where
  "shouldEscape c =
     (if alnum c then False
      else if c \<in> set ''-_.~'' then False
      else True)"

definition upperhex :: string where
  "upperhex = ''0123456789ABCDEF''"

definition escape_byte :: "char \<Rightarrow> string" where
  "escape_byte c =
     (if shouldEscape c then
        (if c = CHR '' '' then ''+''
         else [CHR ''%'', upperhex ! (of_char c div 16), upperhex ! (of_char c mod 16)])
      else [c])"

definition QueryEscape :: "string \<Rightarrow> string" where
  "QueryEscape s = concat (map escape_byte s)"

text \<open>
  \<^verbatim>\<open>url.Values.Encode\<close>: the keys in sorted order, each value as \<^verbatim>\<open>key=value\<close> with both
  sides escaped, joined by \<^verbatim>\<open>&\<close>.
\<close>

fun join_amp :: "string list \<Rightarrow> string" where
  "join_amp [] = []"
| "join_amp [x] = x"
| "join_amp (x # y # ys) = x @ ''&'' @ join_amp (y # ys)"

definition Encode :: "Values \<Rightarrow> string" where
  "Encode v =
     join_amp (concat (map (\<lambda>(k, vs). map (\<lambda>val. QueryEscape k @ ''='' @ QueryEscape val) vs)
                           (sort_key fst v)))"

subsection \<open>Headers\<close>

text \<open>
  \<^verbatim>\<open>textproto.CanonicalMIMEHeaderKey\<close>: a key made of token bytes only gets its first
  letter and every letter after a hyphen in upper case and the other letters in lower
  case; any other key is left as it is. \<^verbatim>\<open>Header.Set\<close> and \<^verbatim>\<open>Header.Get\<close> both go
  through it, so header names are looked up without regard to case.
\<close>

definition validHeaderFieldByte :: "char \<Rightarrow> bool" where
  "validHeaderFieldByte c = (alnum c \<or> c \<in> set ''!#$%&*+-.^_`|~'' \<or> c = CHR 0x27)"

fun canonical :: "bool \<Rightarrow> string \<Rightarrow> string" where
  "canonical upper [] = []"
| "canonical upper (c # cs) =
     (let c' = (if upper \<and> CHR ''a'' \<le> c \<and> c \<le> CHR ''z'' then char_of (of_char c - (32::nat))
                else if \<not> upper \<and> CHR ''A'' \<le> c \<and> c \<le> CHR ''Z'' then char_of (of_char c + (32::nat))
                else c)
      in c' # canonical (c' = CHR ''-'') cs)"

definition CanonicalMIMEHeaderKey :: "string \<Rightarrow> string" where
  "CanonicalMIMEHeaderKey s = (if list_all validHeaderFieldByte s then canonical True s else s)"

definition Header_Set :: "Header \<Rightarrow> string \<Rightarrow> string \<Rightarrow> Header" where
  "Header_Set hdr key val = map_set hdr (CanonicalMIMEHeaderKey key) [val]"

definition Header_Get :: "Header \<Rightarrow> string \<Rightarrow> string" where
  "Header_Get hdr key =
     (case map_of hdr (CanonicalMIMEHeaderKey key) of
        Some (v # vs) \<Rightarrow> v
      | _ \<Rightarrow> [])"

subsection \<open>The gateway\<close>

text \<open>
  What \<^verbatim>\<open>Push\<close> gets from outside is a parameter of the model: what
  \<^verbatim>\<open>http.NewRequest\<close> makes of the URL string (the error of \<^verbatim>\<open>url.Parse\<close>, or the parsed
  URL that the request carries; the method \<^verbatim>\<open>POST\<close> is always valid), what the HTTP
  client answers to a request, and how the body of the answer decodes into the response
  struct. An answer carries its status code, which \<^verbatim>\<open>Push\<close> never reads, and what
  \<^verbatim>\<open>ioutil.ReadAll\<close> makes of its body.
\<close>

record Response =
  StatusCode :: go_int
  Body :: "error + string"

record 'd solSMSAPIResp =
  Status :: string
  Message :: string
  Data :: "'d option"

record 'd gateway =
  request_URL :: "string \<Rightarrow> error + URL"
  Do :: "Client \<Rightarrow> Request \<Rightarrow> error + Response"
  decode_resp :: "string \<Rightarrow> error + 'd solSMSAPIResp"

definition NewRequest :: "'d gateway \<Rightarrow> string \<Rightarrow> string \<Rightarrow> string \<Rightarrow> error + Request" where
  "NewRequest gw method url body =
     (case request_URL gw url of
        Inl err \<Rightarrow> Inl err
      | Inr u \<Rightarrow> Inr \<lparr>Method = method, URL = u, Header = [], Body = body\<rparr>)"

text \<open>
  \<^verbatim>\<open>r := solSMSAPIResp{}; json.Unmarshal(b, &r)\<close>: the text \<^verbatim>\<open>null\<close> leaves the zero
  struct, any other text goes to the decoder of the struct.
\<close>

definition json_Unmarshal_resp ::
    "(string \<Rightarrow> error + 'd solSMSAPIResp) \<Rightarrow> string \<Rightarrow> error + 'd solSMSAPIResp" where
  "json_Unmarshal_resp decode b =
     (if json_null b then Inr \<lparr>Status = [], Message = [], Data = None\<rparr> else decode b)"

subsection \<open>Push\<close>

text \<open>
  Modelled from the spec: \<^verbatim>\<open>models.OTP\<close> is declared in the package
  \<^verbatim>\<open>github.com/zplzpl/otpgateway/models\<close>, which is not among the sources. The provider
  reads its field \<^verbatim>\<open>To\<close> only (the destination address of the spec's OTPRequest); all the
  other fields of the struct are the extension part of the record, of any type.
\<close>

record OTP =
  To :: string

text \<open>
  One run of \<^verbatim>\<open>Push\<close>: the lines it logged, the requests it handed to the HTTP client,
  and the error it returned (\<open>None\<close> for nil).
\<close>

record push_run =
  logs :: "log_event list"
  requests :: "Request list"
  returned :: "error option"

definition Push :: "'d gateway \<Rightarrow> sms \<Rightarrow> 'a OTP_scheme \<Rightarrow> string \<Rightarrow> string \<Rightarrow> push_run" where
  "Push gw s otp subject body =
     (let p = [];
          p = Values_Set p ''sender'' (Sender (cfg s));
          p = Values_Set p ''to'' (To otp);
          p = Values_Set p ''body'' body
      in case NewRequest gw ''POST'' (RootURL (cfg s)) (Encode p) of
           Inl err \<Rightarrow>
             \<lparr>logs = [log_string (Encode p)], requests = [], returned = Some err\<rparr>
         | Inr req \<Rightarrow>
            (let req = req\<lparr>Header := Header_Set (Header req) ''Content-Type''
                                        ''application/x-www-form-urlencoded''\<rparr>;
                 req = req\<lparr>Header := Header_Set (Header req) ''api-key'' (APIKey (cfg s))\<rparr>;
                 lg = [log_string (Encode p), log_request req]
             in case Do gw (h s) req of
                  Inl err \<Rightarrow> \<lparr>logs = lg, requests = [req], returned = Some err\<rparr>
                | Inr resp \<Rightarrow>
                    (case Response.Body resp of
                       Inl err \<Rightarrow> \<lparr>logs = lg, requests = [req], returned = Some err\<rparr>
                     | Inr b \<Rightarrow>
                         (case json_Unmarshal_resp (decode_resp gw) b of
                            Inl err \<Rightarrow> \<lparr>logs = lg, requests = [req], returned = Some err\<rparr>
                          | Inr r \<Rightarrow>
                              if Status r \<noteq> statusOK
                              then \<lparr>logs = lg, requests = [req],
                                    returned = Some (errors_New (Message r))\<rparr>
                              else \<lparr>logs = lg, requests = [req], returned = None\<rparr>))))"

section \<open>Concrete inputs\<close>

text \<open>
  The inputs at which the theorems below are instantiated: configuration blobs, an
  adapter, gateway replies and a mock gateway. The two struct decoders are given on the
  few texts used, as Go's decoder answers on them, and report an error on every other
  text.
\<close>

definition blob_root :: string where
  \<open>blob_root = ''{"RootURL":"https://x/","APIKey":"k","SID":"acct","Sender":"s"}''\<close>

definition blob_idle :: string where
  \<open>blob_idle = ''{"APIKey":"k","SID":"acct","Sender":"s","MaxIdleConns":10}''\<close>

definition blob_timeout :: string where
  \<open>blob_timeout = ''{"APIKey":"k","SID":"acct","Sender":"s","Timeout":30}''\<close>

definition blob_long_timeout :: string where
  \<open>blob_long_timeout = ''{"APIKey":"k","SID":"acct","Sender":"s","Timeout":9223372037}''\<close>

definition blob_no_sender :: string where
  \<open>blob_no_sender = ''{"RootURL":"https://x/","APIKey":"k","SID":"acct","Timeout":30}''\<close>

definition blob_no_scheme :: string where
  \<open>blob_no_scheme = ''{"RootURL":"://x","APIKey":"k","SID":"acct","Sender":"s"}''\<close>

definition decode_example :: "string \<Rightarrow> error + cfg" where
  "decode_example data =
     (if data = blob_root then
        Inr \<lparr>RootURL = ''https://x/'', APIKey = ''k'', SID = ''acct'', Sender = ''s'',
             Timeout = 0, MaxIdleConns = 0\<rparr>
      else if data = blob_idle then
        Inr \<lparr>RootURL = [], APIKey = ''k'', SID = ''acct'', Sender = ''s'',
             Timeout = 0, MaxIdleConns = 10\<rparr>
      else if data = blob_timeout then
        Inr \<lparr>RootURL = [], APIKey = ''k'', SID = ''acct'', Sender = ''s'',
             Timeout = 30, MaxIdleConns = 0\<rparr>
      else if data = blob_long_timeout then
        Inr \<lparr>RootURL = [], APIKey = ''k'', SID = ''acct'', Sender = ''s'',
             Timeout = 9223372037, MaxIdleConns = 0\<rparr>
      else if data = blob_no_sender then
        Inr \<lparr>RootURL = ''https://x/'', APIKey = ''k'', SID = ''acct'', Sender = [],
             Timeout = 30, MaxIdleConns = 0\<rparr>
      else if data = blob_no_scheme then
        Inr \<lparr>RootURL = ''://x'', APIKey = ''k'', SID = ''acct'', Sender = ''s'',
             Timeout = 0, MaxIdleConns = 0\<rparr>
      else Inl (json_error ''unexpected end of JSON input''))"

definition adapter_example :: sms where
  "adapter_example =
     \<lparr>cfg = \<lparr>RootURL = ''https://x/acct/messages'', APIKey = ''k'', SID = ''acct'',
              Sender = ''s'', Timeout = 0, MaxIdleConns = 0\<rparr>,
      h = \<lparr>Client.Timeout = 5000000000,
           Transport = \<lparr>MaxIdleConnsPerHost = 1, ResponseHeaderTimeout = 5000000000\<rparr>\<rparr>\<rparr>"

text \<open>The adapter that \<^verbatim>\<open>New\<close> makes of the root \<^verbatim>\<open>://x\<close>, which has no scheme.\<close>

definition adapter_no_scheme :: sms where
  "adapter_no_scheme =
     \<lparr>cfg = \<lparr>RootURL = ''://x/acct/messages'', APIKey = ''k'', SID = ''acct'',
              Sender = ''s'', Timeout = 0, MaxIdleConns = 0\<rparr>,
      h = \<lparr>Client.Timeout = 5000000000,
           Transport = \<lparr>MaxIdleConnsPerHost = 1, ResponseHeaderTimeout = 5000000000\<rparr>\<rparr>\<rparr>"

text \<open>
  What \<^verbatim>\<open>url.Parse\<close> makes of the two endpoints: the parsed URL of the first, and the
  error of the second.
\<close>

definition url_example :: URL where
  "url_example =
     \<lparr>Scheme = ''https'', Opaque = [], User = None, Host = ''x'', Path = ''/acct/messages'',
      RawPath = [], OmitHost = False, ForceQuery = False, RawQuery = [], Fragment = [],
      RawFragment = []\<rparr>"

definition no_scheme_error :: error where
  \<open>no_scheme_error = url_error ''parse "://x/acct/messages": missing protocol scheme''\<close>

definition reply_ok :: string where
  \<open>reply_ok = ''{"status":"OK"}''\<close>

definition reply_fail :: string where
  \<open>reply_fail = ''{"status":"FAIL","message":"bad sender"}''\<close>

definition decode_reply :: "string \<Rightarrow> error + unit solSMSAPIResp" where
  "decode_reply b =
     (if b = reply_ok then Inr \<lparr>Status = ''OK'', Message = [], Data = None\<rparr>
      else if b = reply_fail then Inr \<lparr>Status = ''FAIL'', Message = ''bad sender'', Data = None\<rparr>
      else Inl (json_error ''unexpected end of JSON input''))"

text \<open>
  A mock gateway that answers every request with one body. Of URL strings it knows the
  two endpoints above, and reports an error for every other string.
\<close>

definition mock_gateway :: "string \<Rightarrow> unit gateway" where
  "mock_gateway reply =
     \<lparr>request_URL = (\<lambda>u. if u = ''https://x/acct/messages'' then Inr url_example
                         else if u = ''://x/acct/messages'' then Inl no_scheme_error
                         else Inl (url_error ''no such endpoint in the examples'')),
      Do = (\<lambda>c req. Inr \<lparr>StatusCode = 200, Body = Inr reply\<rparr>),
      decode_resp = decode_reply\<rparr>"

section \<open>The address validator accepts any string with eight digits in a row\<close>

lemma list_ex_splits: "list_ex P (splits s) = (\<exists>u v. s = u @ v \<and> P (u, v))"
proof
  assume "list_ex P (splits s)"
  then obtain i where "P (take i s, drop i s)"
    by (auto simp: splits_def list_ex_iff simp del: upt_Suc)
  then have "s = take i s @ drop i s \<and> P (take i s, drop i s)" by simp
  then show "\<exists>u v. s = u @ v \<and> P (u, v)" by blast
next
  assume "\<exists>u v. s = u @ v \<and> P (u, v)"
  then obtain u v where s: "s = u @ v" and p: "P (u, v)" by blast
  have "length u \<in> set [0..<Suc (length s)]" using s by simp
  moreover have "P (take (length u) s, drop (length u) s)" using s p by simp
  ultimately show "list_ex P (splits s)"
    unfolding splits_def list_ex_iff set_map by blast
qed

lemma matches_digit:
  "matches (Capture (CharRange CHR ''0'' CHR ''9'')) s = (\<exists>c. s = [c] \<and> digit c)"
  by (auto simp: digit_def split: list.splits)

lemma digit_step:
  "(\<exists>u v. s = u @ v \<and> (\<exists>c. u = [c] \<and> digit c) \<and> length v = k \<and> list_all digit v)
     = (length s = Suc k \<and> list_all digit s)"
proof (cases s)
  case Nil
  then show ?thesis by simp
next
  case (Cons a l)
  have "(\<exists>u v. a # l = u @ v \<and> (\<exists>c. u = [c] \<and> digit c) \<and> length v = k \<and> list_all digit v)
      = (digit a \<and> length l = k \<and> list_all digit l)"
  proof
    assume "\<exists>u v. a # l = u @ v \<and> (\<exists>c. u = [c] \<and> digit c) \<and> length v = k \<and> list_all digit v"
    then show "digit a \<and> length l = k \<and> list_all digit l" by auto
  next
    assume "digit a \<and> length l = k \<and> list_all digit l"
    then have "a # l = [a] @ l \<and> (\<exists>c. [a] = [c] \<and> digit c) \<and> length l = k \<and> list_all digit l"
      by simp
    then show "\<exists>u v. a # l = u @ v \<and> (\<exists>c. u = [c] \<and> digit c) \<and> length v = k \<and> list_all digit v"
      by blast
  qed
  then show ?thesis using Cons by auto
qed

lemma match_times_digit:
  "match_times (matches (Capture (CharRange CHR ''0'' CHR ''9''))) k s
     = (length s = k \<and> list_all digit s)"
proof (induction k arbitrary: s)
  case 0
  then show ?case by auto
next
  case (Suc k)
  show ?case
    unfolding match_times.simps list_ex_splits
    by (simp only: Suc.IH matches_digit prod.case digit_step)
qed

text \<open>The matches of the pattern: an optional plus sign, then 8 to 15 digits.\<close>

lemma matches_reNum:
  "matches reNum t =
     (\<exists>p ds. t = p @ ds \<and> (p = [] \<or> p = ''+'') \<and>
        8 \<le> length ds \<and> length ds \<le> 15 \<and> list_all digit ds)"
proof -
  have q: "matches (Quest (Lit CHR ''+'')) p = (p = [] \<or> p = ''+'')" for p by simp
  have r: "matches (Repeat (Capture (CharRange CHR ''0'' CHR ''9'')) 8 15) ds
      = (8 \<le> length ds \<and> length ds \<le> 15 \<and> list_all digit ds)" for ds
    unfolding matches.simps(6) match_times_digit list_ex_iff
    by (auto simp del: upt_Suc)
  show ?thesis
    unfolding reNum_def matches.simps(3) list_ex_splits prod.case q r by simp
qed

lemma in_substrings: "t \<in> set (substrings s) = (\<exists>u v. s = u @ t @ v)"
proof
  assume "t \<in> set (substrings s)"
  then obtain i j where "t = take j (drop i s)"
    by (simp only: substrings_def set_concat set_map image_image) blast
  then have "s = take i s @ t @ drop j (drop i s)" by (metis append_take_drop_id)
  then show "\<exists>u v. s = u @ t @ v" by blast
next
  assume "\<exists>u v. s = u @ t @ v"
  then obtain u v where s: "s = u @ t @ v" by blast
  have a: "length u \<in> set [0..<Suc (length s)]" by (simp add: s)
  have b: "length t \<in> set [0..<Suc (length s - length u)]" by (simp add: s)
  have c: "t = take (length t) (drop (length u) s)" by (simp add: s)
  from c b have "t \<in> (\<lambda>j. take j (drop (length u) s)) ` set [0..<Suc (length s - length u)]"
    by (rule image_eqI)
  with a show "t \<in> set (substrings s)"
    by (simp only: substrings_def set_concat set_map image_image) blast
qed

text \<open>
  Since the pattern is not anchored, \<^verbatim>\<open>MatchString\<close> holds exactly of the strings that
  have eight digits in a row somewhere.
\<close>

lemma MatchString_reNum:
  "MatchString reNum s = (\<exists>u d v. s = u @ d @ v \<and> length d = 8 \<and> list_all digit d)"
proof
  assume "MatchString reNum s"
  then obtain t where t: "t \<in> set (substrings s)" "matches reNum t"
    by (auto simp: MatchString_def list_ex_iff)
  then obtain u v where s: "s = u @ t @ v" by (auto simp: in_substrings)
  from t(2) obtain p ds where d: "t = p @ ds" "8 \<le> length ds" "list_all digit ds"
    by (auto simp: matches_reNum)
  have "s = u @ (p @ (take 8 ds @ drop 8 ds)) @ v" using s d(1) by simp
  then have "s = (u @ p) @ take 8 ds @ (drop 8 ds @ v)" by (simp only: append_assoc)
  moreover have "length (take 8 ds) = 8" using d by simp
  moreover have "list_all digit (take 8 ds)"
    using d(3) by (auto simp: list_all_iff dest: in_set_takeD)
  ultimately show "\<exists>u d v. s = u @ d @ v \<and> length d = 8 \<and> list_all digit d" by blast
next
  assume "\<exists>u d v. s = u @ d @ v \<and> length d = 8 \<and> list_all digit d"
  then obtain u d v where s: "s = u @ d @ v" and d: "length d = 8" "list_all digit d" by blast
  have "matches reNum d"
    unfolding matches_reNum using d by (intro exI[of _ "[]"] exI[of _ d]) simp
  moreover have "d \<in> set (substrings s)" using s by (auto simp: in_substrings)
  ultimately show "MatchString reNum s" by (auto simp: MatchString_def list_ex_iff)
qed

text \<open>
  The half of the specified behaviour that holds: every string of the anchored shape, an
  optional plus sign followed by 8 to 15 digits and nothing else, is accepted.
\<close>

lemma ValidateAddress_accepts_shape:
  assumes "p = [] \<or> p = ''+''" and "8 \<le> length ds" and "length ds \<le> 15" and "list_all digit ds"
  shows "ValidateAddress s (p @ ds) = None"
proof -
  have "p @ ds = p @ take 8 ds @ drop 8 ds" by simp
  moreover have "length (take 8 ds) = 8" using assms(2) by simp
  moreover have "list_all digit (take 8 ds)"
    using assms(4) by (auto simp: list_all_iff dest: in_set_takeD)
  ultimately have "MatchString reNum (p @ ds)"
    unfolding MatchString_reNum by blast
  then show ?thesis by (simp add: ValidateAddress_def)
qed

text \<open>A string with fewer than eight bytes is rejected, as is one without digits.\<close>

lemma ValidateAddress_rejects_short:
  assumes "length to < 8"
  shows "ValidateAddress s to = Some (errors_New ''invalid mobile number'')"
proof -
  have "\<not> MatchString reNum to"
    unfolding MatchString_reNum
  proof
    assume "\<exists>u d v. to = u @ d @ v \<and> length d = 8 \<and> list_all digit d"
    then obtain u d v where e: "to = u @ d @ v" and l: "length d = 8" by blast
    from e have "length to = length (u @ d @ v)" by (rule arg_cong)
    with l assms show False by simp
  qed
  then show ?thesis by (simp add: ValidateAddress_def)
qed

text \<open>
  C1. The claim: a string outside the shape \<^verbatim>\<open>^\+?[0-9]{8,15}$\<close>, such as one of more than
  15 digits or one containing letters, fails validation. The pattern of the code has no
  anchors, so its upper bound of 15 digits has no effect: the string of 16 digits is
  accepted, and so is a string of letters around eight digits.
\<close>

theorem ValidateAddress_accepts_sixteen_digits:
  "ValidateAddress s ''1234567890123456'' = None \<and>
   ValidateAddress s ''abc12345678xyz'' = None"
proof -
  have "''1234567890123456'' = [] @ ''12345678'' @ ''90123456'' \<and> length ''12345678'' = 8
        \<and> list_all digit ''12345678''"
    by (simp add: digit_def)
  then have a: "MatchString reNum ''1234567890123456''"
    unfolding MatchString_reNum by blast
  have "''abc12345678xyz'' = ''abc'' @ ''12345678'' @ ''xyz'' \<and> length ''12345678'' = 8
        \<and> list_all digit ''12345678''"
    by (simp add: digit_def)
  then have b: "MatchString reNum ''abc12345678xyz''"
    unfolding MatchString_reNum by blast
  from a b show ?thesis by (simp add: ValidateAddress_def)
qed

text \<open>
  C8. The capability accessors are constants: for every adapter, the maximum address
  length is 11, the maximum OTP length is 6 and the maximum body length is 140. They
  take no other input, return no error and change nothing.
\<close>

theorem capability_constants:
  "MaxAddressLen s = 11 \<and> MaxOTPLen s = 6 \<and> MaxBodyLen s = 140"
  by (simp add: MaxAddressLen_def MaxOTPLen_def MaxBodyLen_def maxAddresslen_def maxOTPlen_def)

section \<open>The configuration resolver: theorems\<close>

lemma json_null_null: "json_null ''null''"
  by (simp add: json_null_def json_space_def)

lemma not_null_blobs:
  "\<not> json_null blob_root" "\<not> json_null blob_idle" "\<not> json_null blob_timeout"
  "\<not> json_null blob_long_timeout" "\<not> json_null blob_no_sender"
  by (simp_all add: json_null_def json_space_def blob_root_def blob_idle_def blob_timeout_def
      blob_long_timeout_def blob_no_sender_def)

lemma blobs_distinct:
  "blob_idle \<noteq> blob_root" "blob_timeout \<noteq> blob_root" "blob_timeout \<noteq> blob_idle"
  "blob_long_timeout \<noteq> blob_root" "blob_long_timeout \<noteq> blob_idle"
  "blob_long_timeout \<noteq> blob_timeout" "blob_no_sender \<noteq> blob_root"
  "blob_no_sender \<noteq> blob_idle" "blob_no_sender \<noteq> blob_timeout"
  "blob_no_sender \<noteq> blob_long_timeout"
  by (simp_all add: blob_root_def blob_idle_def blob_timeout_def
      blob_long_timeout_def blob_no_sender_def)

lemma Unmarshal_blob_root:
  "json_Unmarshal_cfg decode_example blob_root =
     Inr (Some \<lparr>RootURL = ''https://x/'', APIKey = ''k'', SID = ''acct'', Sender = ''s'',
               Timeout = 0, MaxIdleConns = 0\<rparr>)"
  by (simp add: json_Unmarshal_cfg_def not_null_blobs decode_example_def)

lemma Unmarshal_blob_idle:
  "json_Unmarshal_cfg decode_example blob_idle =
     Inr (Some \<lparr>RootURL = [], APIKey = ''k'', SID = ''acct'', Sender = ''s'',
               Timeout = 0, MaxIdleConns = 10\<rparr>)"
  by (simp add: json_Unmarshal_cfg_def not_null_blobs decode_example_def blobs_distinct)

lemma Unmarshal_blob_timeout:
  "json_Unmarshal_cfg decode_example blob_timeout =
     Inr (Some \<lparr>RootURL = [], APIKey = ''k'', SID = ''acct'', Sender = ''s'',
               Timeout = 30, MaxIdleConns = 0\<rparr>)"
  by (simp add: json_Unmarshal_cfg_def not_null_blobs decode_example_def blobs_distinct)

lemma Unmarshal_blob_long_timeout:
  "json_Unmarshal_cfg decode_example blob_long_timeout =
     Inr (Some \<lparr>RootURL = [], APIKey = ''k'', SID = ''acct'', Sender = ''s'',
               Timeout = 9223372037, MaxIdleConns = 0\<rparr>)"
  by (simp add: json_Unmarshal_cfg_def not_null_blobs decode_example_def blobs_distinct)

lemma Unmarshal_blob_no_sender:
  "json_Unmarshal_cfg decode_example blob_no_sender =
     Inr (Some \<lparr>RootURL = ''https://x/'', APIKey = ''k'', SID = ''acct'', Sender = [],
               Timeout = 30, MaxIdleConns = 0\<rparr>)"
  by (simp add: json_Unmarshal_cfg_def not_null_blobs decode_example_def blobs_distinct)

lemma TrimRight_apiURL: "TrimRight apiURL ''/'' = ''https://api.kaleyra.io/v1''"
  by (simp add: TrimRight_def apiURL_def)

text \<open>What is left after \<^verbatim>\<open>TrimRight(s, "/")\<close> does not end in a slash.\<close>

lemma TrimRight_no_slash: "TrimRight r ''/'' \<noteq> t @ ''/''"
proof
  assume "TrimRight r ''/'' = t @ ''/''"
  then have "rev (dropWhile (\<lambda>c. c \<in> set ''/'') (rev r)) = t @ ''/''"
    by (simp only: TrimRight_def)
  then have "rev (rev (dropWhile (\<lambda>c. c \<in> set ''/'') (rev r))) = rev (t @ ''/'')"
    by (rule arg_cong)
  then have b: "dropWhile (\<lambda>c. c \<in> set ''/'') (rev r) = CHR ''/'' # rev t"
    by (simp only: rev_rev_ident rev_append rev.simps append.simps)
  then have "dropWhile (\<lambda>c. c \<in> set ''/'') (rev r) \<noteq> []"
    by (simp only: list.distinct not_False_eq_True)
  then have "\<not> hd (dropWhile (\<lambda>c. c \<in> set ''/'') (rev r)) \<in> set ''/''"
    by (rule hd_dropWhile)
  then have "\<not> CHR ''/'' \<in> set ''/''"
    by (simp only: b list.sel simp_thms)
  then show False by simp
qed

text \<open>The resolver on the example configurations.\<close>

lemma New_blob_root:
  "New decode_example blob_root =
     ([log_string ''https://x/acct/messages''], Returned (Inr adapter_example))"
  by (simp add: New_def Unmarshal_blob_root adapter_example_def TrimRight_def Second_def)

lemma New_blob_timeout:
  "New decode_example blob_timeout =
     ([log_string ''https://api.kaleyra.io/v1/acct/messages''],
      Returned (Inr \<lparr>cfg = \<lparr>RootURL = ''https://api.kaleyra.io/v1/acct/messages'',
                               APIKey = ''k'', SID = ''acct'', Sender = ''s'', Timeout = 30,
                               MaxIdleConns = 0\<rparr>,
                       h = \<lparr>Client.Timeout = 30000000000,
                            Transport = \<lparr>MaxIdleConnsPerHost = 1,
                                          ResponseHeaderTimeout = 30000000000\<rparr>\<rparr>\<rparr>))"
  by (simp add: New_def Unmarshal_blob_timeout TrimRight_apiURL Second_def)

text \<open>
  C3. For every configuration blob that decodes into the configuration struct, if the API
  key, the sender name or the account identifier is empty then \<^verbatim>\<open>New\<close> returns the
  error "invalid APIKey or Sender or SID" and no adapter, whatever the other fields are.
\<close>

theorem New_rejects_empty_required_field:
  assumes "json_Unmarshal_cfg decode blob = Inr (Some c)"
      and "APIKey c = [] \<or> Sender c = [] \<or> SID c = []"
  shows "New decode blob = ([], Returned (Inl (errors_New ''invalid APIKey or Sender or SID'')))"
  using assms by (simp add: New_def)

theorem New_rejects_empty_required_field_witness:
  "json_Unmarshal_cfg decode_example blob_no_sender =
     Inr (Some \<lparr>RootURL = ''https://x/'', APIKey = ''k'', SID = ''acct'', Sender = [],
               Timeout = 30, MaxIdleConns = 0\<rparr>) \<and>
   New decode_example blob_no_sender =
     ([], Returned (Inl (errors_New ''invalid APIKey or Sender or SID'')))"
  using New_rejects_empty_required_field [OF Unmarshal_blob_no_sender] Unmarshal_blob_no_sender
  by simp

text \<open>
  C4. For every successful \<^verbatim>\<open>New\<close>, the endpoint of the adapter is the root URL (the
  default base when the configuration has none) with its trailing slashes removed,
  followed by a slash, the account identifier and \<^verbatim>\<open>/messages\<close>. What precedes that slash
  does not end in a slash, so the slash of the root is never doubled. With the root unset
  the endpoint is \<^verbatim>\<open>https://api.kaleyra.io/v1/<SID>/messages\<close>. The endpoint is also the
  one line that \<^verbatim>\<open>New\<close> logs.
\<close>

theorem New_endpoint_normalized:
  assumes "json_Unmarshal_cfg decode blob = Inr (Some c)"
      and "New decode blob = (lg, Returned (Inr s))"
  shows "RootURL (cfg s) =
           TrimRight (if RootURL c = [] then apiURL else RootURL c) ''/''
             @ ''/'' @ SID c @ ''/messages''
       \<and> (\<forall>t. TrimRight (if RootURL c = [] then apiURL else RootURL c) ''/'' \<noteq> t @ ''/'')
       \<and> (RootURL c = [] \<longrightarrow>
            RootURL (cfg s) = ''https://api.kaleyra.io/v1/'' @ SID c @ ''/messages'')
       \<and> lg = [log_string (RootURL (cfg s))]"
  using assms
  by (auto simp: New_def Let_def TrimRight_no_slash TrimRight_apiURL split: if_splits)

text \<open>The example of the specification: root \<^verbatim>\<open>https://x/\<close> and account \<^verbatim>\<open>acct\<close>.\<close>

theorem New_endpoint_normalized_witness:
  "New decode_example blob_root =
     ([log_string ''https://x/acct/messages''], Returned (Inr adapter_example)) \<and>
   RootURL (cfg adapter_example) = ''https://x/acct/messages'' \<and>
   TrimRight ''https://x/'' ''/'' = ''https://x''"
  using New_endpoint_normalized [OF Unmarshal_blob_root New_blob_root] New_blob_root
  by (simp add: adapter_example_def TrimRight_def)

text \<open>
  Whatever the configuration, the transport of a new adapter keeps at most one idle
  connection for each host.
\<close>

lemma New_MaxIdleConnsPerHost:
  "New decode blob = (lg, Returned (Inr s)) \<Longrightarrow> MaxIdleConnsPerHost (Transport (h s)) = 1"
  by (auto simp: New_def Let_def split: sum.splits option.splits if_splits)

text \<open>
  C5. The claim: the cap on idle connections for each host comes from the field
  \<^verbatim>\<open>MaxIdleConns\<close> of the configuration. The code declares and decodes the field and
  never reads it: a configuration asking for 10 gets the fixed cap 1.
\<close>

theorem New_idle_cap_ignores_config:
  "New decode_example blob_idle =
     ([log_string ''https://api.kaleyra.io/v1/acct/messages''],
      Returned (Inr \<lparr>cfg = \<lparr>RootURL = ''https://api.kaleyra.io/v1/acct/messages'',
                               APIKey = ''k'', SID = ''acct'', Sender = ''s'', Timeout = 0,
                               MaxIdleConns = 10\<rparr>,
                       h = \<lparr>Client.Timeout = 5000000000,
                            Transport = \<lparr>MaxIdleConnsPerHost = 1,
                                          ResponseHeaderTimeout = 5000000000\<rparr>\<rparr>\<rparr>))"
  by (simp add: New_def Unmarshal_blob_idle TrimRight_apiURL Second_def)

text \<open>
  A number of seconds times \<^verbatim>\<open>time.Second\<close> is that many nanoseconds as long as the
  product fits in 64 bits.
\<close>

lemma sint_mult_Second:
  fixes t :: "64 word"
  assumes "- 9223372036 \<le> sint t" and "sint t \<le> 9223372036"
  shows "sint (t * Second) = sint t * 1000000000"
proof -
  have s: "sint Second = 1000000000" by (simp add: Second_def)
  have "sint (t * Second) = signed_take_bit 63 (sint t * sint Second)"
    by (simp add: sint_word_ariths)
  also have "\<dots> = sint t * sint Second"
    using assms by (intro signed_take_bit_int_eq_self) (simp_all add: s)
  finally show ?thesis by (simp add: s)
qed

text \<open>
  C6, as stated: the timeout of the HTTP client is the configured \<^verbatim>\<open>Timeout\<close> in seconds
  whenever that field is not zero. It fails for a field of 9223372037 seconds: the
  product with \<^verbatim>\<open>time.Second\<close> wraps around, and the timeout of the client is the
  negative duration of -9223372036709551616 nanoseconds.
\<close>

theorem New_timeout_overflow_counterexample:
  "New decode_example blob_long_timeout =
     ([log_string ''https://api.kaleyra.io/v1/acct/messages''],
      Returned (Inr \<lparr>cfg = \<lparr>RootURL = ''https://api.kaleyra.io/v1/acct/messages'',
                               APIKey = ''k'', SID = ''acct'', Sender = ''s'',
                               Timeout = 9223372037, MaxIdleConns = 0\<rparr>,
                       h = \<lparr>Client.Timeout = 9223372037000000000,
                            Transport = \<lparr>MaxIdleConnsPerHost = 1,
                                          ResponseHeaderTimeout = 9223372037000000000\<rparr>\<rparr>\<rparr>))
   \<and> sint (9223372037000000000 :: 64 word) = - 9223372036709551616
   \<and> sint (9223372037 :: 64 word) * 1000000000 = 9223372037000000000"
  by (simp add: New_def Unmarshal_blob_long_timeout TrimRight_apiURL Second_def)

text \<open>
  C6, amended. For every successful \<^verbatim>\<open>New\<close>, the timeout of the HTTP client is 5 seconds
  when the configured \<^verbatim>\<open>Timeout\<close> is unset or zero, and is the configured number of seconds
  when that number is not zero and lies between -9223372036 and 9223372036, the range in
  which the number of nanoseconds fits in 64 bits. The time allowed for the response
  header is the same duration.
\<close>

theorem New_timeout_in_range:
  assumes "json_Unmarshal_cfg decode blob = Inr (Some c)"
      and "New decode blob = (lg, Returned (Inr s))"
  shows "(cfg.Timeout c = 0 \<longrightarrow> sint (Client.Timeout (h s)) = 5 * 1000000000)
       \<and> (cfg.Timeout c \<noteq> 0 \<and> - 9223372036 \<le> sint (cfg.Timeout c)
              \<and> sint (cfg.Timeout c) \<le> 9223372036 \<longrightarrow>
            sint (Client.Timeout (h s)) = sint (cfg.Timeout c) * 1000000000)
       \<and> ResponseHeaderTimeout (Transport (h s)) = Client.Timeout (h s)"
proof -
  have five: "sint (5 * Second) = 5 * 1000000000"
    using sint_mult_Second [of 5] by simp
  from assms show ?thesis
    by (auto simp: New_def Let_def five sint_mult_Second mult.commute [of Second] split: if_splits)
qed

theorem New_timeout_in_range_witness:
  "sint (Client.Timeout (h adapter_example)) = 5000000000 \<and>
   New decode_example blob_timeout =
     ([log_string ''https://api.kaleyra.io/v1/acct/messages''],
      Returned (Inr \<lparr>cfg = \<lparr>RootURL = ''https://api.kaleyra.io/v1/acct/messages'',
                               APIKey = ''k'', SID = ''acct'', Sender = ''s'', Timeout = 30,
                               MaxIdleConns = 0\<rparr>,
                       h = \<lparr>Client.Timeout = 30000000000,
                            Transport = \<lparr>MaxIdleConnsPerHost = 1,
                                          ResponseHeaderTimeout = 30000000000\<rparr>\<rparr>\<rparr>)) \<and>
   sint (30000000000 :: 64 word) = 30 * 1000000000"
  using New_timeout_in_range [OF Unmarshal_blob_root New_blob_root]
        New_timeout_in_range [OF Unmarshal_blob_timeout New_blob_timeout]
        New_blob_timeout
  by (simp add: adapter_example_def)

text \<open>
  C9. \<^verbatim>\<open>New\<close> does not return on every input that decodes: on the blob \<^verbatim>\<open>null\<close> the
  decoding succeeds and leaves the configuration pointer nil, and the check of the
  required fields then dereferences that pointer: the call panics, with nothing logged
  and no error returned. This holds whatever the decoder of the struct does.
\<close>

theorem New_null_panics:
  "json_Unmarshal_cfg decode ''null'' = Inr None \<and> New decode ''null'' = ([], Panicked)"
  by (simp add: New_def json_Unmarshal_cfg_def json_null_null)

section \<open>The dispatcher: theorems\<close>

lemma QueryEscape_keys:
  "QueryEscape ''sender'' = ''sender''" "QueryEscape ''to'' = ''to''"
  "QueryEscape ''body'' = ''body''"
  by (simp_all add: QueryEscape_def escape_byte_def shouldEscape_def alnum_def)

lemma Values_three:
  "Values_Set (Values_Set (Values_Set [] ''sender'' a) ''to'' b) ''body'' c =
     [(''sender'', [a]), (''to'', [b]), (''body'', [c])]"
  by (simp add: Values_Set_def)

text \<open>The encoded form of the three fields, in the sorted order of their keys.\<close>

lemma Encode_three:
  "Encode [(''sender'', [a]), (''to'', [b]), (''body'', [c])] =
     ''body='' @ QueryEscape c @ ''&sender='' @ QueryEscape a @ ''&to='' @ QueryEscape b"
  by (simp add: Encode_def QueryEscape_keys)

lemma Canonical_Content_Type: "CanonicalMIMEHeaderKey ''Content-Type'' = ''Content-Type''"
  by (simp add: CanonicalMIMEHeaderKey_def validHeaderFieldByte_def alnum_def Let_def
      char_of_def bit_0)

lemma Canonical_api_key: "CanonicalMIMEHeaderKey ''api-key'' = ''Api-Key''"
  by (simp add: CanonicalMIMEHeaderKey_def validHeaderFieldByte_def alnum_def Let_def
      char_of_def bit_0)

lemma Header_two:
  "Header_Set (Header_Set [] ''Content-Type'' v) ''api-key'' k =
     [(''Content-Type'', [v]), (''Api-Key'', [k])]"
  by (simp add: Header_Set_def Canonical_Content_Type Canonical_api_key)

lemma Header_Get_two:
  "Header_Get [(''Content-Type'', [v]), (''Api-Key'', [k])] ''Content-Type'' = v"
  "Header_Get [(''Content-Type'', [v]), (''Api-Key'', [k])] ''api-key'' = k"
  by (simp_all add: Header_Get_def Canonical_Content_Type Canonical_api_key)

text \<open>
  \<^verbatim>\<open>Push\<close> hands at most one request to the HTTP client: none when the endpoint does not
  parse as a URL, and otherwise this one, whose URL is the parsed endpoint.
\<close>

lemma Push_requests:
  "requests (Push gw s otp subject body) =
     (case request_URL gw (RootURL (cfg s)) of
        Inl err \<Rightarrow> []
      | Inr u \<Rightarrow>
          [\<lparr>Method = ''POST'', URL = u,
            Header = [(''Content-Type'', [''application/x-www-form-urlencoded'']),
                      (''Api-Key'', [APIKey (cfg s)])],
            Body = Encode [(''sender'', [Sender (cfg s)]), (''to'', [To otp]),
                           (''body'', [body])]\<rparr>])"
  by (simp add: Push_def NewRequest_def Values_three Header_two Let_def
      split: option.splits sum.splits)

text \<open>
  When the endpoint does not parse, \<^verbatim>\<open>Push\<close> logs the encoded payload, sends nothing and
  returns the error of the parsing.
\<close>

lemma Push_endpoint_error:
  assumes "request_URL gw (RootURL (cfg s)) = Inl e"
  shows "Push gw s otp subject body =
           \<lparr>logs = [log_string (Encode [(''sender'', [Sender (cfg s)]), (''to'', [To otp]),
                                         (''body'', [body])])],
            requests = [], returned = Some e\<rparr>"
  using assms by (simp add: Push_def NewRequest_def Values_three Let_def)

lemma not_null_replies: "\<not> json_null reply_ok" "\<not> json_null reply_fail"
  by (simp_all add: json_null_def json_space_def reply_ok_def reply_fail_def)

lemma Unmarshal_reply_fail:
  "json_Unmarshal_resp (decode_resp (mock_gateway reply_fail)) reply_fail =
     Inr \<lparr>Status = ''FAIL'', Message = ''bad sender'', Data = None\<rparr>"
  by (simp add: json_Unmarshal_resp_def not_null_replies mock_gateway_def decode_reply_def)
    (simp add: reply_ok_def reply_fail_def)

lemma Unmarshal_reply_ok:
  "json_Unmarshal_resp (decode_resp (mock_gateway reply_ok)) reply_ok =
     Inr \<lparr>Status = ''OK'', Message = [], Data = None\<rparr>"
  by (simp add: json_Unmarshal_resp_def not_null_replies mock_gateway_def decode_reply_def)

lemma QueryEscape_example:
  "QueryEscape ''123456 is your code'' = ''123456+is+your+code''"
  "QueryEscape ''+919812345678'' = ''%2B919812345678''"
  "QueryEscape ''s'' = ''s''"
  by (simp_all add: QueryEscape_def escape_byte_def shouldEscape_def alnum_def upperhex_def)

lemma Encode_example:
  "Encode [(''sender'', [''s'']), (''to'', [''+919812345678'']),
           (''body'', [''123456 is your code''])] =
     ''body=123456+is+your+code&sender=s&to=%2B919812345678''"
  by (simp add: Encode_three QueryEscape_example)

text \<open>The mock gateway on the two endpoints.\<close>

lemma request_URL_example:
  "request_URL (mock_gateway reply) (RootURL (cfg adapter_example)) = Inr url_example"
  by (simp add: mock_gateway_def adapter_example_def)

lemma request_URL_no_scheme:
  "request_URL (mock_gateway reply) (RootURL (cfg adapter_no_scheme)) = Inl no_scheme_error"
  by (simp add: mock_gateway_def adapter_no_scheme_def)

lemma Do_example:
  "Do (mock_gateway reply) c req = Inr \<lparr>StatusCode = 200, Body = Inr reply\<rparr>"
  by (simp add: mock_gateway_def)

text \<open>\<^verbatim>\<open>New\<close> makes the adapter without a scheme from a root that has none.\<close>

lemma New_blob_no_scheme:
  "New decode_example blob_no_scheme =
     ([log_string ''://x/acct/messages''], Returned (Inr adapter_no_scheme))"
proof -
  have n: "\<not> json_null blob_no_scheme"
    by (simp add: json_null_def json_space_def blob_no_scheme_def)
  have d: "blob_no_scheme \<noteq> blob_root" "blob_no_scheme \<noteq> blob_idle"
    "blob_no_scheme \<noteq> blob_timeout" "blob_no_scheme \<noteq> blob_long_timeout"
    "blob_no_scheme \<noteq> blob_no_sender"
    by (simp_all add: blob_no_scheme_def blob_root_def blob_idle_def blob_timeout_def
        blob_long_timeout_def blob_no_sender_def)
  have "json_Unmarshal_cfg decode_example blob_no_scheme =
     Inr (Some \<lparr>RootURL = ''://x'', APIKey = ''k'', SID = ''acct'', Sender = ''s'',
               Timeout = 0, MaxIdleConns = 0\<rparr>)"
    by (simp add: json_Unmarshal_cfg_def n decode_example_def d)
  then show ?thesis
    by (simp add: New_def adapter_no_scheme_def TrimRight_def Second_def)
qed

text \<open>
  C7, as stated: every call of \<^verbatim>\<open>Push\<close> sends a POST to the endpoint. It fails for an
  adapter whose endpoint does not parse as a URL, such as the one \<^verbatim>\<open>New\<close> makes of the
  root \<^verbatim>\<open>://x\<close>: \<^verbatim>\<open>http.NewRequest\<close> reports the missing scheme, and \<^verbatim>\<open>Push\<close> logs the
  payload, sends no request at all and returns that error.
\<close>

theorem Push_unparsable_endpoint_counterexample:
  "New decode_example blob_no_scheme =
     ([log_string ''://x/acct/messages''], Returned (Inr adapter_no_scheme)) \<and>
   Push (mock_gateway reply_ok) adapter_no_scheme \<lparr>To = ''+919812345678''\<rparr>
        ''Your code'' ''123456 is your code'' =
     \<lparr>logs = [log_string ''body=123456+is+your+code&sender=s&to=%2B919812345678''],
      requests = [], returned = Some no_scheme_error\<rparr>"
  using Push_endpoint_error
    [where otp = "\<lparr>To = ''+919812345678''\<rparr>" and subject = "''Your code''"
       and body = "''123456 is your code''", OF request_URL_no_scheme [of reply_ok]]
  by (simp add: New_blob_no_scheme adapter_no_scheme_def Encode_example)

text \<open>
  C7, amended. For every call of \<^verbatim>\<open>Push\<close> whose endpoint \<^verbatim>\<open>http.NewRequest\<close> can parse,
  \<^verbatim>\<open>Push\<close> sends exactly one request: a POST to the parsed endpoint, whose body is the form
  encoding of exactly the three fields \<^verbatim>\<open>sender\<close> (the configured sender name), \<^verbatim>\<open>to\<close> (the
  destination address) and \<^verbatim>\<open>body\<close> (the message body as given), that is
  \<^verbatim>\<open>body=...&sender=...&to=...\<close> with each value escaped, whose header \<^verbatim>\<open>Content-Type\<close> is
  \<^verbatim>\<open>application/x-www-form-urlencoded\<close> and whose header \<^verbatim>\<open>api-key\<close> is the configured API
  key. When the endpoint does not parse, \<^verbatim>\<open>Push\<close> sends no request and returns the error
  of the parsing.
\<close>

theorem Push_outbound_request:
  "(request_URL gw (RootURL (cfg s)) = Inr u \<longrightarrow>
      requests (Push gw s otp subject body) =
        [\<lparr>Method = ''POST'', URL = u,
          Header = [(''Content-Type'', [''application/x-www-form-urlencoded'']),
                    (''Api-Key'', [APIKey (cfg s)])],
          Body = Encode [(''sender'', [Sender (cfg s)]), (''to'', [To otp]),
                         (''body'', [body])]\<rparr>]
      \<and> Encode [(''sender'', [Sender (cfg s)]), (''to'', [To otp]), (''body'', [body])] =
          ''body='' @ QueryEscape body @ ''&sender='' @ QueryEscape (Sender (cfg s))
            @ ''&to='' @ QueryEscape (To otp)
      \<and> Header_Get [(''Content-Type'', [''application/x-www-form-urlencoded'']),
                     (''Api-Key'', [APIKey (cfg s)])] ''Content-Type''
            = ''application/x-www-form-urlencoded''
      \<and> Header_Get [(''Content-Type'', [''application/x-www-form-urlencoded'']),
                     (''Api-Key'', [APIKey (cfg s)])] ''api-key''
            = APIKey (cfg s))
   \<and> (request_URL gw (RootURL (cfg s)) = Inl e \<longrightarrow>
      requests (Push gw s otp subject body) = []
      \<and> returned (Push gw s otp subject body) = Some e)"
  by (simp add: Push_requests Push_endpoint_error Header_Get_two Encode_three)

theorem Push_outbound_request_witness:
  "request_URL (mock_gateway reply_ok) (RootURL (cfg adapter_example)) = Inr url_example \<and>
   requests (Push (mock_gateway reply_ok) adapter_example \<lparr>To = ''+919812345678''\<rparr>
              ''Your code'' ''123456 is your code'') =
     [\<lparr>Method = ''POST'', URL = url_example,
       Header = [(''Content-Type'', [''application/x-www-form-urlencoded'']),
                 (''Api-Key'', [''k''])],
       Body = ''body=123456+is+your+code&sender=s&to=%2B919812345678''\<rparr>] \<and>
   Header_Get [(''Content-Type'', [''application/x-www-form-urlencoded'']),
               (''Api-Key'', [''k''])] ''api-key'' = ''k'' \<and>
   request_URL (mock_gateway reply_ok) (RootURL (cfg adapter_no_scheme)) = Inl no_scheme_error \<and>
   requests (Push (mock_gateway reply_ok) adapter_no_scheme \<lparr>To = ''+919812345678''\<rparr>
              ''Your code'' ''123456 is your code'') = [] \<and>
   returned (Push (mock_gateway reply_ok) adapter_no_scheme \<lparr>To = ''+919812345678''\<rparr>
              ''Your code'' ''123456 is your code'') = Some no_scheme_error"
proof -
  note a = Push_outbound_request [of "mock_gateway reply_ok" adapter_example url_example
      "\<lparr>To = ''+919812345678''\<rparr>" "''Your code''" "''123456 is your code''" no_scheme_error]
  note b = Push_outbound_request [of "mock_gateway reply_ok" adapter_no_scheme url_example
      "\<lparr>To = ''+919812345678''\<rparr>" "''Your code''" "''123456 is your code''" no_scheme_error]
  have c: "APIKey (cfg adapter_example) = ''k''" "Sender (cfg adapter_example) = ''s''"
    by (simp_all add: adapter_example_def)
  from a b show ?thesis
    by (simp add: request_URL_example request_URL_no_scheme c Encode_example)
qed

text \<open>
  C2. When the endpoint parses, the gateway answers the request that \<^verbatim>\<open>Push\<close> builds, the
  body of the answer is read and it decodes to a gateway response, \<^verbatim>\<open>Push\<close> returns nil
  exactly when the status of that response is the string \<^verbatim>\<open>OK\<close>; when the status is
  anything else it returns the error made by \<^verbatim>\<open>errors.New\<close> from exactly the message of
  the response.
\<close>

theorem Push_success_iff_status_OK:
  assumes "request_URL gw (RootURL (cfg s)) = Inr u"
      and "Do gw (h s)
             \<lparr>Method = ''POST'', URL = u,
              Header = [(''Content-Type'', [''application/x-www-form-urlencoded'']),
                        (''Api-Key'', [APIKey (cfg s)])],
              Body = Encode [(''sender'', [Sender (cfg s)]), (''to'', [To otp]),
                             (''body'', [body])]\<rparr> = Inr resp"
      and "Response.Body resp = Inr b"
      and "json_Unmarshal_resp (decode_resp gw) b = Inr r"
  shows "(returned (Push gw s otp subject body) = None \<longleftrightarrow> Status r = ''OK'')
       \<and> (Status r \<noteq> ''OK'' \<longrightarrow>
            returned (Push gw s otp subject body) = Some (errors_New (Message r)))"
  using assms
  by (simp add: Push_def NewRequest_def Values_three Header_two Let_def statusOK_def)

text \<open>
  The two examples of the specification: the reply with status \<^verbatim>\<open>FAIL\<close> and message
  \<^verbatim>\<open>bad sender\<close> gives the error carrying \<^verbatim>\<open>bad sender\<close>, and the reply with status \<^verbatim>\<open>OK\<close>
  gives nil.
\<close>

theorem Push_success_iff_status_OK_witness:
  "json_Unmarshal_resp (decode_resp (mock_gateway reply_fail)) reply_fail =
     Inr \<lparr>Status = ''FAIL'', Message = ''bad sender'', Data = None\<rparr> \<and>
   returned (Push (mock_gateway reply_fail) adapter_example \<lparr>To = ''+919812345678''\<rparr>
               ''Your code'' ''123456 is your code'') = Some (errors_New ''bad sender'') \<and>
   json_Unmarshal_resp (decode_resp (mock_gateway reply_ok)) reply_ok =
     Inr \<lparr>Status = ''OK'', Message = [], Data = None\<rparr> \<and>
   returned (Push (mock_gateway reply_ok) adapter_example \<lparr>To = ''+919812345678''\<rparr>
               ''Your code'' ''123456 is your code'') = None"
proof -
  have b: "Response.Body \<lparr>StatusCode = 200, Body = Inr reply\<rparr> = Inr reply" for reply
    by simp
  note f = Push_success_iff_status_OK
    [where otp = "\<lparr>To = ''+919812345678''\<rparr>" and subject = "''Your code''"
       and body = "''123456 is your code''",
     OF request_URL_example Do_example b Unmarshal_reply_fail]
  note k = Push_success_iff_status_OK
    [where otp = "\<lparr>To = ''+919812345678''\<rparr>" and subject = "''Your code''"
       and body = "''123456 is your code''",
     OF request_URL_example Do_example b Unmarshal_reply_ok]
  from f k Unmarshal_reply_fail Unmarshal_reply_ok
  show ?thesis by simp
qed

text \<open>
  C10. What \<^verbatim>\<open>Push\<close> logs, sends and returns depends on the adapter, the gateway, the
  destination \<^verbatim>\<open>To\<close> and the body only: two calls that agree on these do the same,
  however they differ in the subject and in the other fields of the OTP record.
\<close>

theorem Push_independent_of_subject_and_other_fields:
  assumes "To otp1 = To otp2"
  shows "Push gw s otp1 subject1 body = Push gw s otp2 subject2 body"
  using assms by (simp add: Push_def)

theorem Push_independent_of_subject_and_other_fields_witness:
  "Push (mock_gateway reply_fail) adapter_example
        \<lparr>To = ''+919812345678'', \<dots> = (3::nat)\<rparr> ''Your code'' ''123456 is your code''
   = Push (mock_gateway reply_fail) adapter_example
        \<lparr>To = ''+919812345678'', \<dots> = ''namespace-7''\<rparr> ''Another subject''
        ''123456 is your code''"
  using Push_independent_of_subject_and_other_fields
    [of "\<lparr>To = ''+919812345678'', \<dots> = (3::nat)\<rparr>"
        "\<lparr>To = ''+919812345678'', \<dots> = ''namespace-7''\<rparr>"]
  by simp

end
